theory Spec2Isabelle
  imports Complex_Main
begin

section \<open>Numbers and strings\<close>

text \<open>
  The scalebar works on JavaScript numbers. They are modelled as the reals: every
  arithmetic operation is exact, \<open>Math.log\<close> is the natural logarithm, \<open>Math.ceil\<close> and
  \<open>Math.round\<close> are the integer ceiling and rounding half up, and \<open>Math.pow(10, n)\<close> at an
  integer \<open>n\<close> is the integer power of ten. The rounding of IEEE-754 doubles, \<open>NaN\<close> and the
  infinities are not part of the model, so the logarithm-based helpers are only meaningful
  at positive arguments (where the source yields a finite number) and every statement
  about them carries that hypothesis. Nothing below is derived from the value that
  \<open>getSignificand\<close> or \<open>normalize\<close> returns: there the doubles of the engine and exact
  arithmetic part company.
\<close>

text \<open>
  A JavaScript string built by \<open>+\<close> from numbers and strings is a list of pieces in the
  order of concatenation: \<open>Num v\<close> stands for the decimal rendering of the number \<open>v\<close>,
  \<open>Str s\<close> for the characters \<open>s\<close>.
\<close>

datatype piece = Num real | Str string

type_synonym jsstring = "piece list"

text \<open>The last string piece of a label: spacer, unit (with its prefix) and plural.\<close>

fun label_unit :: "jsstring \<Rightarrow> string" where
  "label_unit [] = []"
| "label_unit [Str s] = s"
| "label_unit [Num v] = []"
| "label_unit (p # q # ps) = label_unit (q # ps)"

section \<open>Magnitude selection\<close>

text \<open>\<open>function log10(x) { return Math.log(x) / Math.log(10); }\<close>\<close>

definition log10 :: "real \<Rightarrow> real" where
  "log10 x = ln x / ln 10"

text \<open>\<open>Math.pow(10, n)\<close> at an integer \<open>n\<close>.\<close>

definition pow10 :: "int \<Rightarrow> real" where
  "pow10 n = 10 powi n"

text \<open>\<open>Math.round\<close>: the nearest integer, a half rounded up.\<close>

definition Math_round :: "real \<Rightarrow> int" where
  "Math_round v = \<lfloor>v + 1 / 2\<rfloor>"

text \<open>
  \<open>return x * Math.pow(10, Math.ceil(-log10(x)));\<close>
  This is the formula in exact arithmetic, where it yields a number in \<open>[1, 10)\<close>. The
  program evaluates it in doubles and can leave that interval: the quotient
  \<open>Math.log(1000) / Math.log(10)\<close> is \<open>2.9999999999999996\<close>, the ceiling of its negation is \<open>-2\<close>,
  and \<open>getSignificand(1000)\<close> is 10 in the program, not 1.
\<close>

definition getSignificand :: "real \<Rightarrow> real" where
  "getSignificand x = x * pow10 \<lceil>- log10 x\<rceil>"

text \<open>
  The three sequential checks at the end of \<open>normalize\<close>, as a function of the value
  \<open>result\<close> they start from.
\<close>

definition snap :: "real \<Rightarrow> real" where
  "snap result =
     (let r1 = (if result \<ge> 5 then result / 5 else result);
          r2 = (if r1 \<ge> 4 then r1 / 4 else r1);
          r3 = (if r2 \<ge> 2 then r2 / 2 else r2)
      in r3)"

text \<open>
  \<open>normalize\<close> of the source; the suffix keeps it apart from the constant of HOL. It
  inherits the difference between doubles and exact arithmetic from \<open>getSignificand\<close>: the
  program can return a value just below 1 or just below 2 where the formula gives 1.
\<close>

definition normalize_sb :: "real \<Rightarrow> real \<Rightarrow> real" where
  "normalize_sb val minSize =
     (let significand = getSignificand val;
          minSizeSign = getSignificand minSize;
          result = getSignificand (significand / minSizeSign)
      in snap result)"

definition roundSignificand :: "real \<Rightarrow> int \<Rightarrow> real" where
  "roundSignificand x decimalPlaces =
     (let exponent = - \<lceil>- log10 x\<rceil>;
          power = decimalPlaces - exponent;
          significand = x * pow10 power
      in if power < 0 then of_int (Math_round significand) * pow10 (- power)
         else of_int (Math_round significand) / pow10 power)"

section \<open>Size and text\<close>

record result =
  r_size :: real
  r_text :: jsstring

text \<open>The character U+03BC (Greek mu) of the micro prefix, as its two UTF-8 bytes.\<close>

definition mu :: string where
  "mu = [CHR 0xCE, CHR 0xBC]"

definition getWithUnit :: "real \<Rightarrow> string \<Rightarrow> jsstring" where
  "getWithUnit v unitSuffix =
     (if v < 0.000001 then [Num (v * 1000000000), Str ('' n'' @ unitSuffix)]
      else if v < 0.001 then [Num (v * 1000000), Str ('' '' @ mu @ unitSuffix)]
      else if v < 1 then [Num (v * 1000), Str ('' m'' @ unitSuffix)]
      else if v \<ge> 1000 then [Num (v / 1000), Str ('' k'' @ unitSuffix)]
      else [Num v, Str ('' '' @ unitSuffix)])"

text \<open>
  The optional parameters \<open>handlePlural\<close> and \<open>spacer\<close> are \<open>None\<close> when the caller
  leaves them out (\<open>undefined\<close>).
\<close>

definition getScalebarSizeAndText ::
  "real \<Rightarrow> real \<Rightarrow> string \<Rightarrow> bool option \<Rightarrow> string option \<Rightarrow> result" where
  "getScalebarSizeAndText ppm minSize unitSuffix handlePlural spacer =
     (let spacer' = (case spacer of None \<Rightarrow> '' '' | Some s \<Rightarrow> s);
          val = normalize_sb ppm minSize;
          factor = roundSignificand ((val / ppm) * minSize) 3;
          sz = val * minSize;
          plural = (if handlePlural = Some True \<and> factor > 1 then ''s'' else '''')
      in \<lparr> r_size = sz, r_text = [Num factor, Str (spacer' @ unitSuffix @ plural)] \<rparr>)"

definition getScalebarSizeAndTextForMetric :: "real \<Rightarrow> real \<Rightarrow> string \<Rightarrow> result" where
  "getScalebarSizeAndTextForMetric ppm minSize unitSuffix =
     (let val = normalize_sb ppm minSize;
          factor = roundSignificand ((val / ppm) * minSize) 3;
          sz = val * minSize;
          valueWithUnit = getWithUnit factor unitSuffix
      in \<lparr> r_size = sz, r_text = valueWithUnit \<rparr>)"

definition METRIC_LENGTH :: "real \<Rightarrow> real \<Rightarrow> result" where
  "METRIC_LENGTH ppm minSize = getScalebarSizeAndTextForMetric ppm minSize ''m''"

definition IMPERIAL_LENGTH :: "real \<Rightarrow> real \<Rightarrow> result" where
  "IMPERIAL_LENGTH ppm minSize =
     (let maxSize = minSize * 2;
          ppi = ppm * 0.0254
      in if maxSize < ppi * 12 then
           (if maxSize < ppi then
              (let ppt = ppi / 1000 in getScalebarSizeAndText ppt minSize ''th'' None None)
            else getScalebarSizeAndText ppi minSize ''in'' None None)
         else
           (let ppf = ppi * 12
            in if maxSize < ppf * 2000 then getScalebarSizeAndText ppf minSize ''ft'' None None
               else (let ppmi = ppf * 5280
                     in getScalebarSizeAndText ppmi minSize ''mi'' None None)))"

text \<open>The double quote and the apostrophe, the suffixes of arcseconds and arcminutes.\<close>

definition dquote :: string where
  "dquote = [CHR 0x22]"

definition squote :: string where
  "squote = [CHR 0x27]"

definition ASTRONOMY :: "real \<Rightarrow> real \<Rightarrow> result" where
  "ASTRONOMY ppa minSize =
     (let maxSize = minSize * 2
      in if maxSize < ppa * 60 then
           getScalebarSizeAndText ppa minSize dquote (Some False) (Some [])
         else
           (let ppminutes = ppa * 60
            in if maxSize < ppminutes * 60 then
                 getScalebarSizeAndText ppminutes minSize squote (Some False) (Some [])
               else
                 (let ppd = ppminutes * 60
                  in getScalebarSizeAndText ppd minSize ''&#176'' (Some False) (Some []))))"

definition STANDARD_TIME :: "real \<Rightarrow> real \<Rightarrow> result" where
  "STANDARD_TIME pps minSize =
     (let maxSize = minSize * 2
      in if maxSize < pps * 60 then getScalebarSizeAndTextForMetric pps minSize ''s''
         else
           (let ppminutes = pps * 60
            in if maxSize < ppminutes * 60 then
                 getScalebarSizeAndText ppminutes minSize ''minute'' (Some True) None
               else
                 (let pph = ppminutes * 60
                  in if maxSize < pph * 24 then
                       getScalebarSizeAndText pph minSize ''hour'' (Some True) None
                     else
                       (let ppd = pph * 24
                        in if maxSize < ppd * 365.25 then
                             getScalebarSizeAndText ppd minSize ''day'' (Some True) None
                           else
                             (let ppy = ppd * 365.25
                              in getScalebarSizeAndText ppy minSize ''year'' (Some True) None)))))"

section \<open>The Scalebar object\<close>

datatype ScalebarType = TypeNONE | MICROSCOPY | MAP

datatype ScalebarLocation = LocNONE | TOP_LEFT | TOP_RIGHT | BOTTOM_RIGHT | BOTTOM_LEFT

datatype error = TypeError | Error string

record point =
  pt_x :: real
  pt_y :: real

text \<open>
  What \<open>tiledImageViewportToImageZoom\<close> reads of a tiled image:
  \<open>_scaleSpring.current.value\<close>, \<open>viewport._containerInnerSize.x\<close> and
  \<open>source.dimensions.x\<close>.
\<close>

record tiledImage =
  scaleSpringValue :: real
  containerInnerSizeX :: real
  sourceDimensionsX :: real

text \<open>
  What the scalebar reads of the viewer. \<open>wrapHorizontal\<close> and \<open>wrapVertical\<close> are
  declared as numbers and only tested for truth; \<open>pixelFromPoint\<close> is
  \<open>viewport.pixelFromPoint(p, true)\<close>, \<open>viewportZoom\<close> is \<open>viewport.getZoom(true)\<close>,
  \<open>worldItems\<close> are the items \<open>world.getItemAt\<close> indexes, \<open>aspectRatio\<close> is
  \<open>source.aspectRatio\<close>, a positive number.
\<close>

record viewer =
  isOpen :: bool
  wrapHorizontal :: real
  wrapVertical :: real
  aspectRatio :: real
  containerOffsetWidth :: real
  containerOffsetHeight :: real
  pixelFromPoint :: "point \<Rightarrow> point"
  viewportZoom :: real
  worldItems :: "tiledImage list"

text \<open>The properties of the overlay's \<open>div\<close> element that the scalebar writes.\<close>

record element =
  style_position :: jsstring
  style_margin :: jsstring
  style_pointerEvents :: jsstring
  style_width :: jsstring
  style_display :: jsstring
  style_left :: jsstring
  style_top :: jsstring
  style_fontSize :: jsstring
  style_fontFamily :: jsstring
  style_textAlign :: jsstring
  style_color :: jsstring
  style_border :: jsstring
  style_borderBottom :: jsstring
  style_borderTop :: jsstring
  style_backgroundColor :: jsstring
  innerHTML :: jsstring

text \<open>\<open>document.createElement("div")\<close>: nothing is set yet.\<close>

definition createElement :: element where
  "createElement =
     \<lparr> style_position = [], style_margin = [], style_pointerEvents = [], style_width = [],
       style_display = [], style_left = [], style_top = [], style_fontSize = [],
       style_fontFamily = [], style_textAlign = [], style_color = [], style_border = [],
       style_borderBottom = [], style_borderTop = [], style_backgroundColor = [],
       innerHTML = [] \<rparr>"

text \<open>
  The two methods a scalebar can hold in its field \<open>drawScalebar\<close>, and the anonymous
  function that draws nothing.
\<close>

datatype drawRef = DrawMicroscopy | DrawMap | DrawNothing

text \<open>
  The fields of the class. \<open>offsetWidth\<close> and \<open>offsetHeight\<close> are the browser's layout of
  the element: the scalebar reads them and never computes them, so they are functions of
  the element that the environment supplies.
\<close>

record scalebar =
  viewer :: viewer
  divElt :: element
  offsetWidth :: "element \<Rightarrow> real"
  offsetHeight :: "element \<Rightarrow> real"
  minWidth :: real
  drawScalebar :: drawRef
  color :: string
  fontColor :: string
  backgroundColor :: string
  fontSize :: string
  fontFamily :: string
  barThickness :: real
  pixelsPerMeter :: "real option"
  referenceItemIdx :: nat
  location :: ScalebarLocation
  xOffset :: real
  yOffset :: real
  stayInsideImage :: bool
  sizeAndTextRenderer :: "real \<Rightarrow> real \<Rightarrow> result"

text \<open>\<open>ScalebarOptions\<close>: a field that is left out is \<open>None\<close>.\<close>

record options =
  o_viewer :: "viewer option"
  o_type :: "ScalebarType option"
  o_pixelsPerMeter :: "real option"
  o_referenceItemIdx :: "nat option"
  o_minWidth :: "string option"
  o_location :: "ScalebarLocation option"
  o_xOffset :: "real option"
  o_yOffset :: "real option"
  o_stayInsideImage :: "bool option"
  o_color :: "string option"
  o_fontColor :: "string option"
  o_backgroundColor :: "string option"
  o_fontSize :: "string option"
  o_fontFamily :: "string option"
  o_barThickness :: "real option"
  o_sizeAndTextRenderer :: "(real \<Rightarrow> real \<Rightarrow> result) option"

text \<open>
  JavaScript truth of an optional field: a string is true when it is not empty, a number
  when it is not zero, an enumeration member when it is not the member \<open>0\<close>.
  \<open>or_else truthy v d\<close> is \<open>v || d\<close>, and also the value of a field \<open>f\<close> after
  \<open>if (v) f = v\<close> when it held \<open>d\<close> before.
\<close>

definition truthy_string :: "string option \<Rightarrow> bool" where
  "truthy_string v = (case v of None \<Rightarrow> False | Some t \<Rightarrow> t \<noteq> [])"

definition truthy_number :: "real option \<Rightarrow> bool" where
  "truthy_number v = (case v of None \<Rightarrow> False | Some r \<Rightarrow> r \<noteq> 0)"

definition truthy_index :: "nat option \<Rightarrow> bool" where
  "truthy_index v = (case v of None \<Rightarrow> False | Some n \<Rightarrow> n \<noteq> 0)"

definition truthy_type :: "ScalebarType option \<Rightarrow> bool" where
  "truthy_type v = (case v of None \<Rightarrow> False | Some t \<Rightarrow> t \<noteq> TypeNONE)"

definition truthy_location :: "ScalebarLocation option \<Rightarrow> bool" where
  "truthy_location v = (case v of None \<Rightarrow> False | Some l \<Rightarrow> l \<noteq> LocNONE)"

definition truthy_bool :: "bool option \<Rightarrow> bool" where
  "truthy_bool v = (case v of None \<Rightarrow> False | Some b \<Rightarrow> b)"

definition js_true :: "real \<Rightarrow> bool" where
  "js_true r = (r \<noteq> 0)"

text \<open>A function value is always true.\<close>

definition truthy_function :: "drawRef \<Rightarrow> bool" where
  "truthy_function f = True"

definition or_else :: "('a option \<Rightarrow> bool) \<Rightarrow> 'a option \<Rightarrow> 'a \<Rightarrow> 'a" where
  "or_else truthy v d = (case v of None \<Rightarrow> d | Some t \<Rightarrow> if truthy v then t else d)"

definition setDrawScalebarFunction :: "ScalebarType \<Rightarrow> drawRef" where
  "setDrawScalebarFunction ty =
     (case ty of MAP \<Rightarrow> DrawMap | MICROSCOPY \<Rightarrow> DrawMicroscopy | TypeNONE \<Rightarrow> DrawNothing)"

text \<open>\<open>setMinWidth\<close> writes the element and returns its laid-out width.\<close>

definition setMinWidth :: "scalebar \<Rightarrow> string \<Rightarrow> scalebar \<times> real" where
  "setMinWidth s w =
     (let d1 = (divElt s)\<lparr> style_width := [Str w] \<rparr>;
          d2 = d1\<lparr> style_display := [] \<rparr>
      in (s\<lparr> divElt := d2 \<rparr>, offsetWidth s d2))"

text \<open>
  \<open>updateOptions\<close>: the results of \<open>setDrawScalebarFunction\<close> and of \<open>setMinWidth\<close> are
  not assigned to anything; every other field is overwritten when the option is true.
\<close>

definition updateOptions :: "scalebar \<Rightarrow> options option \<Rightarrow> scalebar" where
  "updateOptions s opts =
     (case opts of
        None \<Rightarrow> s
      | Some opt \<Rightarrow>
          (let s1 = (case o_type opt of
                       None \<Rightarrow> s
                     | Some ty \<Rightarrow>
                         if truthy_type (o_type opt)
                         then (let unused = setDrawScalebarFunction ty in s)
                         else s);
               s2 = (case o_minWidth opt of
                       None \<Rightarrow> s1
                     | Some w \<Rightarrow>
                         if truthy_string (o_minWidth opt) then fst (setMinWidth s1 w)
                         else s1)
           in s2\<lparr> color := or_else truthy_string (o_color opt) (color s2),
                  fontColor := or_else truthy_string (o_fontColor opt) (fontColor s2),
                  backgroundColor :=
                    or_else truthy_string (o_backgroundColor opt) (backgroundColor s2),
                  fontSize := or_else truthy_string (o_fontSize opt) (fontSize s2),
                  fontFamily := or_else truthy_string (o_fontFamily opt) (fontFamily s2),
                  barThickness := or_else truthy_number (o_barThickness opt) (barThickness s2),
                  pixelsPerMeter :=
                    (if truthy_number (o_pixelsPerMeter opt) then o_pixelsPerMeter opt
                     else pixelsPerMeter s2),
                  referenceItemIdx :=
                    or_else truthy_index (o_referenceItemIdx opt) (referenceItemIdx s2),
                  location := or_else truthy_location (o_location opt) (location s2),
                  xOffset := or_else truthy_number (o_xOffset opt) (xOffset s2),
                  yOffset := or_else truthy_number (o_yOffset opt) (yOffset s2),
                  stayInsideImage :=
                    or_else truthy_bool (o_stayInsideImage opt) (stayInsideImage s2),
                  sizeAndTextRenderer :=
                    (case o_sizeAndTextRenderer opt of
                       None \<Rightarrow> sizeAndTextRenderer s2
                     | Some f \<Rightarrow> f) \<rparr>))"

text \<open>
  The constructor, given the browser's layout functions. Appending the element to the
  viewer's container changes no field the scalebar reads. The three event handlers it
  registers call \<open>refresh\<close> with no argument; the viewer's event loop is outside the model.
\<close>

definition constructor ::
  "(element \<Rightarrow> real) \<Rightarrow> (element \<Rightarrow> real) \<Rightarrow> options option \<Rightarrow> error + scalebar" where
  "constructor layoutWidth layoutHeight opts =
     (case opts of
        None \<Rightarrow> Inl (Error ''A viewer must be specified.'')
      | Some opt \<Rightarrow>
         (case o_viewer opt of
            None \<Rightarrow> Inl (Error ''A viewer must be specified.'')
          | Some v \<Rightarrow>
             (let d = createElement\<lparr> style_position := [Str ''relative''],
                                     style_margin := [Str ''0''],
                                     style_pointerEvents := [Str ''none''] \<rparr>;
                  s0 = \<lparr> viewer = v, divElt = d, offsetWidth = layoutWidth,
                         offsetHeight = layoutHeight, minWidth = 0,
                         drawScalebar = DrawNothing, color = [], fontColor = [],
                         backgroundColor = [], fontSize = [], fontFamily = [],
                         barThickness = 0, pixelsPerMeter = None, referenceItemIdx = 0,
                         location = LocNONE, xOffset = 0, yOffset = 0,
                         stayInsideImage = False, sizeAndTextRenderer = METRIC_LENGTH \<rparr>;
                  (s1, w) = setMinWidth s0 (or_else truthy_string (o_minWidth opt) ''150px'')
              in Inr (s1\<lparr> minWidth := w,
                           drawScalebar :=
                             setDrawScalebarFunction
                               (or_else truthy_type (o_type opt) MICROSCOPY),
                           color := or_else truthy_string (o_color opt) ''black'',
                           fontColor := or_else truthy_string (o_fontColor opt) ''black'',
                           backgroundColor :=
                             or_else truthy_string (o_backgroundColor opt) ''none'',
                           fontSize := or_else truthy_string (o_fontSize opt) [],
                           fontFamily := or_else truthy_string (o_fontFamily opt) [],
                           barThickness := or_else truthy_number (o_barThickness opt) 2,
                           pixelsPerMeter :=
                             (if truthy_number (o_pixelsPerMeter opt)
                              then o_pixelsPerMeter opt else None),
                           referenceItemIdx :=
                             or_else truthy_index (o_referenceItemIdx opt) 0,
                           location := or_else truthy_location (o_location opt) BOTTOM_LEFT,
                           xOffset := or_else truthy_number (o_xOffset opt) 5,
                           yOffset := or_else truthy_number (o_yOffset opt) 5,
                           stayInsideImage :=
                             (case o_stayInsideImage opt of None \<Rightarrow> True | Some b \<Rightarrow> b),
                           sizeAndTextRenderer :=
                             (case o_sizeAndTextRenderer opt of
                                None \<Rightarrow> METRIC_LENGTH
                              | Some f \<Rightarrow> f) \<rparr>))))"

definition drawMicroscopyScalebar :: "scalebar \<Rightarrow> real \<Rightarrow> jsstring \<Rightarrow> scalebar" where
  "drawMicroscopyScalebar s sz txt =
     s\<lparr> divElt := (divElt s)
          \<lparr> style_fontSize := [Str (fontSize s)],
            style_fontFamily := [Str (fontFamily s)],
            style_textAlign := [Str ''center''],
            style_color := [Str (fontColor s)],
            style_border := [Str ''none''],
            style_borderBottom := [Num (barThickness s), Str (''px solid '' @ color s)],
            style_backgroundColor := [Str (backgroundColor s)],
            innerHTML := txt,
            style_width := [Num sz, Str ''px''] \<rparr> \<rparr>"

definition drawMapScalebar :: "scalebar \<Rightarrow> real \<Rightarrow> jsstring \<Rightarrow> scalebar" where
  "drawMapScalebar s sz txt =
     s\<lparr> divElt := (divElt s)
          \<lparr> style_fontSize := [Str (fontSize s)],
            style_fontFamily := [Str (fontFamily s)],
            style_textAlign := [Str ''center''],
            style_color := [Str (fontColor s)],
            style_border := [Num (barThickness s), Str (''px solid '' @ color s)],
            style_borderTop := [Str ''none''],
            style_backgroundColor := [Str (backgroundColor s)],
            innerHTML := txt,
            style_width := [Num sz, Str ''px''] \<rparr> \<rparr>"

text \<open>\<open>this.drawScalebar(size, text)\<close>: the call of the method the field holds.\<close>

definition callDrawScalebar :: "scalebar \<Rightarrow> real \<Rightarrow> jsstring \<Rightarrow> scalebar" where
  "callDrawScalebar s sz txt =
     (case drawScalebar s of
        DrawMicroscopy \<Rightarrow> drawMicroscopyScalebar s sz txt
      | DrawMap \<Rightarrow> drawMapScalebar s sz txt
      | DrawNothing \<Rightarrow> s)"

definition tiledImageViewportToImageZoom :: "tiledImage \<Rightarrow> real \<Rightarrow> real" where
  "tiledImageViewportToImageZoom tiledImage viewportZoom' =
     (let ratio = (scaleSpringValue tiledImage * containerInnerSizeX tiledImage)
                    / sourceDimensionsX tiledImage
      in ratio * viewportZoom')"

text \<open>
  \<open>getScalebarLocation\<close>: \<open>None\<close> is \<open>undefined\<close>, the result when \<open>location\<close> is none of
  the four corners.
\<close>

definition getScalebarLocation :: "scalebar \<Rightarrow> point option" where
  "getScalebarLocation s =
     (if location s = TOP_LEFT then
        (let x0 = 0; y0 = 0;
             (x1, y1) =
               (if stayInsideImage s then
                  (let pixel = pixelFromPoint (viewer s) \<lparr> pt_x = 0, pt_y = 0 \<rparr>
                   in (if \<not> js_true (wrapHorizontal (viewer s))
                       then max (pt_x pixel) 0 else x0,
                       if \<not> js_true (wrapVertical (viewer s))
                       then max (pt_y pixel) 0 else y0))
                else (x0, y0))
         in Some \<lparr> pt_x = x1 + xOffset s, pt_y = y1 + yOffset s \<rparr>)
      else if location s = TOP_RIGHT then
        (let barWidth = offsetWidth s (divElt s);
             x0 = containerOffsetWidth (viewer s) - barWidth;
             y0 = 0;
             (x1, y1) =
               (if stayInsideImage s then
                  (let pixel = pixelFromPoint (viewer s) \<lparr> pt_x = 1, pt_y = 0 \<rparr>
                   in (if \<not> js_true (wrapHorizontal (viewer s))
                       then min x0 (pt_x pixel - barWidth) else x0,
                       if \<not> js_true (wrapVertical (viewer s))
                       then max y0 (pt_y pixel) else y0))
                else (x0, y0))
         in Some \<lparr> pt_x = x1 - xOffset s, pt_y = y1 + yOffset s \<rparr>)
      else if location s = BOTTOM_RIGHT then
        (let barWidth = offsetWidth s (divElt s);
             barHeight = offsetHeight s (divElt s);
             x0 = containerOffsetWidth (viewer s) - barWidth;
             y0 = containerOffsetHeight (viewer s) - barHeight;
             (x1, y1) =
               (if stayInsideImage s then
                  (let pixel = pixelFromPoint (viewer s)
                                 \<lparr> pt_x = 1, pt_y = 1 / aspectRatio (viewer s) \<rparr>
                   in (if \<not> js_true (wrapHorizontal (viewer s))
                       then min x0 (pt_x pixel - barWidth) else x0,
                       if \<not> js_true (wrapVertical (viewer s))
                       then min y0 (pt_y pixel - barHeight) else y0))
                else (x0, y0))
         in Some \<lparr> pt_x = x1 - xOffset s, pt_y = y1 - yOffset s \<rparr>)
      else if location s = BOTTOM_LEFT then
        (let barHeight = offsetHeight s (divElt s);
             x0 = 0;
             y0 = containerOffsetHeight (viewer s) - barHeight;
             (x1, y1) =
               (if stayInsideImage s then
                  (let pixel = pixelFromPoint (viewer s)
                                 \<lparr> pt_x = 0, pt_y = 1 / aspectRatio (viewer s) \<rparr>
                   in (if \<not> js_true (wrapHorizontal (viewer s))
                       then max x0 (pt_x pixel) else x0,
                       if \<not> js_true (wrapVertical (viewer s))
                       then min y0 (pt_y pixel - barHeight) else y0))
                else (x0, y0))
         in Some \<lparr> pt_x = x1 + xOffset s, pt_y = y1 - yOffset s \<rparr>)
      else None)"

text \<open>
  \<open>refresh\<close>. The guard tests the viewer, the draw function, the calibration constant
  and the location, and nothing else.
  \<open>world.getItemAt\<close> yields \<open>undefined\<close> past the last item, and reading a property of
  it is a \<open>TypeError\<close>.
\<close>

definition refresh :: "scalebar \<Rightarrow> options option \<Rightarrow> error + scalebar" where
  "refresh s0 opts =
     (let s = (case opts of None \<Rightarrow> s0 | Some opt \<Rightarrow> updateOptions s0 opts)
      in if \<not> isOpen (viewer s) \<or> \<not> truthy_function (drawScalebar s)
            \<or> \<not> truthy_number (pixelsPerMeter s) \<or> \<not> truthy_location (Some (location s))
         then Inr (s\<lparr> divElt := (divElt s)\<lparr> style_display := [Str ''none''] \<rparr> \<rparr>)
         else
           (let s1 = s\<lparr> divElt := (divElt s)\<lparr> style_display := [] \<rparr> \<rparr>
            in if referenceItemIdx s1 < length (worldItems (viewer s1)) then
                 (let tiledImage = worldItems (viewer s1) ! referenceItemIdx s1;
                      zoom = tiledImageViewportToImageZoom tiledImage
                               (viewportZoom (viewer s1));
                      currentPPM = zoom * the (pixelsPerMeter s1);
                      props = sizeAndTextRenderer s1 currentPPM (minWidth s1);
                      s2 = callDrawScalebar s1 (r_size props) (r_text props)
                  in case getScalebarLocation s2 of
                       None \<Rightarrow> Inr s2
                     | Some loc \<Rightarrow>
                         Inr (s2\<lparr> divElt := (divElt s2)
                                \<lparr> style_left := [Num (pt_x loc), Str ''px''],
                                  style_top := [Num (pt_y loc), Str ''px''] \<rparr> \<rparr>))
               else Inl TypeError))"

section \<open>Notions of the specification\<close>

text \<open>
  The five metric buckets as the specification enumerates them, each with its range and
  with the label it stands for. They are stated independently of \<open>getWithUnit\<close>, to be
  compared with it.
\<close>

datatype prefix = Nano | Micro | Milli | Base | Kilo

fun in_bucket :: "prefix \<Rightarrow> real \<Rightarrow> bool" where
  "in_bucket Nano v = (0 < v \<and> v < 0.000001)"
| "in_bucket Micro v = (0.000001 \<le> v \<and> v < 0.001)"
| "in_bucket Milli v = (0.001 \<le> v \<and> v < 1)"
| "in_bucket Base v = (1 \<le> v \<and> v < 1000)"
| "in_bucket Kilo v = (1000 \<le> v)"

fun with_prefix :: "prefix \<Rightarrow> real \<Rightarrow> string \<Rightarrow> jsstring" where
  "with_prefix Nano v u = [Num (v * 1000000000), Str ('' n'' @ u)]"
| "with_prefix Micro v u = [Num (v * 1000000), Str ('' '' @ mu @ u)]"
| "with_prefix Milli v u = [Num (v * 1000), Str ('' m'' @ u)]"
| "with_prefix Base v u = [Num v, Str ('' '' @ u)]"
| "with_prefix Kilo v u = [Num (v * 0.001), Str ('' k'' @ u)]"

text \<open>
  The placement of the specification: the container-edge position moved inward by the
  offset, and the same position held back by the content edge that the viewport
  transform reports at the anchor's corner of the content.
\<close>

definition left_anchor :: "scalebar \<Rightarrow> bool" where
  "left_anchor s = (location s = TOP_LEFT \<or> location s = BOTTOM_LEFT)"

definition top_anchor :: "scalebar \<Rightarrow> bool" where
  "top_anchor s = (location s = TOP_LEFT \<or> location s = TOP_RIGHT)"

definition content_corner :: "scalebar \<Rightarrow> point" where
  "content_corner s =
     \<lparr> pt_x = (if left_anchor s then 0 else 1),
       pt_y = (if top_anchor s then 0 else 1 / aspectRatio (viewer s)) \<rparr>"

definition edge_x :: "scalebar \<Rightarrow> real" where
  "edge_x s =
     (if left_anchor s then 0 + xOffset s
      else containerOffsetWidth (viewer s) - offsetWidth s (divElt s) - xOffset s)"

definition edge_y :: "scalebar \<Rightarrow> real" where
  "edge_y s =
     (if top_anchor s then 0 + yOffset s
      else containerOffsetHeight (viewer s) - offsetHeight s (divElt s) - yOffset s)"

definition clamped_x :: "scalebar \<Rightarrow> real" where
  "clamped_x s =
     (let px = pt_x (pixelFromPoint (viewer s) (content_corner s))
      in if left_anchor s then max 0 px + xOffset s
         else min (containerOffsetWidth (viewer s) - offsetWidth s (divElt s))
                  (px - offsetWidth s (divElt s)) - xOffset s)"

definition clamped_y :: "scalebar \<Rightarrow> real" where
  "clamped_y s =
     (let py = pt_y (pixelFromPoint (viewer s) (content_corner s))
      in if top_anchor s then max 0 py + yOffset s
         else min (containerOffsetHeight (viewer s) - offsetHeight s (divElt s))
                  (py - offsetHeight s (divElt s)) - yOffset s)"

text \<open>
  A second run that differs from the first only in the x-coordinates (or only in the
  y-coordinates) the viewport transform produces.
\<close>

definition transformed_x :: "scalebar \<Rightarrow> (point \<Rightarrow> real) \<Rightarrow> scalebar" where
  "transformed_x s g =
     s\<lparr> viewer := (viewer s)
          \<lparr> pixelFromPoint := (\<lambda>p. (pixelFromPoint (viewer s) p)\<lparr> pt_x := g p \<rparr>) \<rparr> \<rparr>"

definition transformed_y :: "scalebar \<Rightarrow> (point \<Rightarrow> real) \<Rightarrow> scalebar" where
  "transformed_y s g =
     s\<lparr> viewer := (viewer s)
          \<lparr> pixelFromPoint := (\<lambda>p. (pixelFromPoint (viewer s) p)\<lparr> pt_y := g p \<rparr>) \<rparr> \<rparr>"

text \<open>Whether a call of \<open>refresh\<close> returned with the element hidden.\<close>

definition hidden :: "error + scalebar \<Rightarrow> bool" where
  "hidden r = (case r of Inl e \<Rightarrow> False | Inr s \<Rightarrow> style_display (divElt s) = [Str ''none''])"

text \<open>The condition under which \<open>refresh\<close> hides the element, on the updated fields.\<close>

definition disabled :: "scalebar \<Rightarrow> bool" where
  "disabled s =
     (\<not> isOpen (viewer s) \<or> pixelsPerMeter s = None \<or> pixelsPerMeter s = Some 0
      \<or> location s = LocNONE)"

section \<open>Example configurations\<close>

text \<open>
  A 400 by 300 container showing an image of aspect ratio 3/2 whose top-left corner is at
  pixel (50, 30) and whose width covers 300 pixels; the overlay is laid out 100 by 20.
\<close>

definition example_viewer :: viewer where
  "example_viewer =
     \<lparr> isOpen = True, wrapHorizontal = 0, wrapVertical = 0, aspectRatio = 3 / 2,
       containerOffsetWidth = 400, containerOffsetHeight = 300,
       pixelFromPoint = (\<lambda>p. \<lparr> pt_x = 50 + 300 * pt_x p, pt_y = 30 + 300 * pt_y p \<rparr>),
       viewportZoom = 1,
       worldItems = [\<lparr> scaleSpringValue = 1, containerInnerSizeX = 400,
                       sourceDimensionsX = 4000 \<rparr>] \<rparr>"

definition example_scalebar :: scalebar where
  "example_scalebar =
     \<lparr> viewer = example_viewer, divElt = createElement,
       offsetWidth = (\<lambda>d. 100), offsetHeight = (\<lambda>d. 20), minWidth = 150,
       drawScalebar = DrawMicroscopy, color = ''black'', fontColor = ''black'',
       backgroundColor = ''none'', fontSize = [], fontFamily = [], barThickness = 2,
       pixelsPerMeter = Some 1000000, referenceItemIdx = 0, location = BOTTOM_RIGHT,
       xOffset = 5, yOffset = 5, stayInsideImage = False,
       sizeAndTextRenderer = METRIC_LENGTH \<rparr>"

text \<open>A caller-supplied renderer that reports the arguments it was called with.\<close>

definition echo_renderer :: "real \<Rightarrow> real \<Rightarrow> result" where
  "echo_renderer ppm minSize = \<lparr> r_size = minSize, r_text = [Num ppm, Str '' px per m''] \<rparr>"

definition zero_width_scalebar :: scalebar where
  "zero_width_scalebar =
     example_scalebar\<lparr> minWidth := 0, location := BOTTOM_LEFT,
                       sizeAndTextRenderer := echo_renderer \<rparr>"

definition wrapped_scalebar :: scalebar where
  "wrapped_scalebar =
     example_scalebar\<lparr> stayInsideImage := True,
                       viewer := example_viewer\<lparr> wrapHorizontal := 1 \<rparr> \<rparr>"

definition no_options :: options where
  "no_options =
     \<lparr> o_viewer = None, o_type = None, o_pixelsPerMeter = None, o_referenceItemIdx = None,
       o_minWidth = None, o_location = None, o_xOffset = None, o_yOffset = None,
       o_stayInsideImage = None, o_color = None, o_fontColor = None,
       o_backgroundColor = None, o_fontSize = None, o_fontFamily = None,
       o_barThickness = None, o_sizeAndTextRenderer = None \<rparr>"

section \<open>Powers of ten\<close>










section \<open>The snap-down step\<close>

text \<open>
  Claim C4, as amended. The claim says that the three sequential checks reduce every
  \<open>r\<close> in \<open>[1, 10)\<close> to one of 1, 1.25, 2 and 2.5. They do not: 3 is reduced to 1.5. What
  holds is that the result lies in \<open>[1, 2)\<close>: it is \<open>r / 5\<close> from 5 on, \<open>r / 4\<close> between 4 and
  5, \<open>r / 2\<close> between 2 and 4, and \<open>r\<close> itself below 2.
\<close>

theorem snap_interval:
  assumes "1 \<le> r" and "r < 10"
  shows "1 \<le> snap r \<and> snap r < 2 \<and>
         snap r = (if 5 \<le> r then r / 5 else if 4 \<le> r then r / 4
                   else if 2 \<le> r then r / 2 else r)"
  using assms unfolding snap_def Let_def by auto

theorem snap_interval_witness:
  "(1::real) \<le> 9 / 2 \<and> (9 / 2 :: real) < 10 \<and> snap (9 / 2) = 9 / 8 \<and>
   1 \<le> snap (9 / 2) \<and> snap (9 / 2) < 2"
  using snap_interval [of "9 / 2"] by simp

theorem snap_three:
  "(1::real) \<le> 3 \<and> (3::real) < 10 \<and> snap 3 = 3 / 2 \<and> snap 3 \<notin> {1, 1.25, 2, 2.5}"
  unfolding snap_def Let_def by simp

section \<open>Rounding the factor\<close>










section \<open>Metric prefixes\<close>

lemma bucket_total:
  assumes "0 < v"
  shows "\<exists>!b. in_bucket b v"
proof -
  consider "v < 0.000001" | "0.000001 \<le> v \<and> v < 0.001" | "0.001 \<le> v \<and> v < 1"
    | "1 \<le> v \<and> v < 1000" | "1000 \<le> v"
    by linarith
  then show ?thesis
  proof cases
    case 1
    then have "in_bucket Nano v" using assms by simp
    moreover have "b = Nano" if "in_bucket b v" for b
      using that 1 by (cases b) simp_all
    ultimately show ?thesis by blast
  next
    case 2
    then have "in_bucket Micro v" by simp
    moreover have "b = Micro" if "in_bucket b v" for b
      using that 2 by (cases b) simp_all
    ultimately show ?thesis by blast
  next
    case 3
    then have "in_bucket Milli v" by simp
    moreover have "b = Milli" if "in_bucket b v" for b
      using that 3 by (cases b) simp_all
    ultimately show ?thesis by blast
  next
    case 4
    then have "in_bucket Base v" by simp
    moreover have "b = Base" if "in_bucket b v" for b
      using that 4 by (cases b) simp_all
    ultimately show ?thesis by blast
  next
    case 5
    then have "in_bucket Kilo v" by simp
    moreover have "b = Kilo" if "in_bucket b v" for b
      using that 5 by (cases b) simp_all
    ultimately show ?thesis by blast
  qed
qed

lemma bucket_label:
  assumes "in_bucket b v"
  shows "getWithUnit v u = with_prefix b v u"
  using assms by (cases b) (simp_all add: getWithUnit_def)

text \<open>
  Claim C3. The metric bucketing of \<open>getWithUnit\<close> partitions the positive numbers into
  five half-open ranges: below \<open>1e-6\<close> nano (times \<open>1e9\<close>), from \<open>1e-6\<close> below \<open>1e-3\<close> micro
  (times \<open>1e6\<close>), from \<open>1e-3\<close> below 1 milli (times \<open>1e3\<close>), from 1 below 1000 the bare unit,
  from 1000 on kilo (times \<open>1e-3\<close>). Exactly one bucket applies to every positive value,
  \<open>getWithUnit\<close> returns that bucket's label, and \<open>1e-6\<close> itself is micro, not nano.
\<close>

theorem getWithUnit_partition:
  assumes "0 < v"
  shows "(\<exists>!b. in_bucket b v) \<and>
         (\<forall>b. in_bucket b v \<longrightarrow> getWithUnit v u = with_prefix b v u) \<and>
         in_bucket Micro 0.000001 \<and> \<not> in_bucket Nano 0.000001 \<and>
         getWithUnit 0.000001 u = [Num (0.000001 * 1000000), Str ('' '' @ mu @ u)]"
  using bucket_total [OF assms] bucket_label by (simp add: getWithUnit_def)

theorem getWithUnit_partition_witness:
  "(0::real) < 5 / 2 \<and> in_bucket Base (5 / 2) \<and>
   getWithUnit (5 / 2) ''m'' = [Num (5 / 2), Str '' m'']"
proof -
  have h: "(0::real) < 5 / 2"
    by simp
  from getWithUnit_partition [OF h, of "''m''"]
  have "in_bucket Base (5 / 2) \<longrightarrow> getWithUnit (5 / 2) ''m'' = with_prefix Base (5 / 2) ''m''"
    by blast
  then show ?thesis
    by simp
qed

section \<open>Imperial length\<close>

text \<open>
  Claim C2, as amended. The claim says that, once the bar no longer fits in a foot
  (\<open>2 * minSize \<ge> ppi * 12\<close>), feet are chosen if and only if \<open>2 * minSize\<close> is below the
  pixels per foot times 5280, and miles otherwise. The renderer compares with the pixels
  per foot times 2000 instead. It walks the ladder thou, inch, foot, mile from the finest
  unit: thou while \<open>2 * minSize\<close> is below the pixels per inch, inch while it is below 12
  times that, and from there on feet if and only if
  \<open>2 * minSize < (ppm * 0.0254 * 12) * 2000\<close>, and miles, at 5280 feet to the mile,
  otherwise.
\<close>

theorem IMPERIAL_LENGTH_ladder:
  assumes "0 < ppm" and "0 < minSize"
  shows "(2 * minSize < ppm * 0.0254 \<longrightarrow>
            IMPERIAL_LENGTH ppm minSize =
              getScalebarSizeAndText (ppm * 0.0254 / 1000) minSize ''th'' None None) \<and>
         (ppm * 0.0254 \<le> 2 * minSize \<and> 2 * minSize < (ppm * 0.0254) * 12 \<longrightarrow>
            IMPERIAL_LENGTH ppm minSize =
              getScalebarSizeAndText (ppm * 0.0254) minSize ''in'' None None) \<and>
         ((ppm * 0.0254) * 12 \<le> 2 * minSize \<longrightarrow>
            (label_unit (r_text (IMPERIAL_LENGTH ppm minSize)) = '' ft''
               \<longleftrightarrow> 2 * minSize < (ppm * 0.0254 * 12) * 2000) \<and>
            (label_unit (r_text (IMPERIAL_LENGTH ppm minSize)) = '' mi''
               \<longleftrightarrow> \<not> 2 * minSize < (ppm * 0.0254 * 12) * 2000) \<and>
            IMPERIAL_LENGTH ppm minSize =
              (if 2 * minSize < (ppm * 0.0254 * 12) * 2000
               then getScalebarSizeAndText (ppm * 0.0254 * 12) minSize ''ft'' None None
               else getScalebarSizeAndText (ppm * 0.0254 * 12 * 5280) minSize ''mi'' None None))"
proof -
  have th: "IMPERIAL_LENGTH ppm minSize =
              getScalebarSizeAndText (ppm * 0.0254 / 1000) minSize ''th'' None None"
    if "2 * minSize < ppm * 0.0254"
    using that assms unfolding IMPERIAL_LENGTH_def Let_def by (simp add: mult.commute)
  have inch: "IMPERIAL_LENGTH ppm minSize =
              getScalebarSizeAndText (ppm * 0.0254) minSize ''in'' None None"
    if "ppm * 0.0254 \<le> 2 * minSize \<and> 2 * minSize < (ppm * 0.0254) * 12"
    using that unfolding IMPERIAL_LENGTH_def Let_def by (simp add: mult.commute)
  have up: "IMPERIAL_LENGTH ppm minSize =
              (if 2 * minSize < (ppm * 0.0254 * 12) * 2000
               then getScalebarSizeAndText (ppm * 0.0254 * 12) minSize ''ft'' None None
               else getScalebarSizeAndText (ppm * 0.0254 * 12 * 5280) minSize ''mi'' None None)"
    if "(ppm * 0.0254) * 12 \<le> 2 * minSize"
    using that unfolding IMPERIAL_LENGTH_def Let_def by (simp add: mult.commute)
  have ft: "label_unit (r_text (getScalebarSizeAndText p minSize ''ft'' None None)) = '' ft''" for p
    by (simp add: getScalebarSizeAndText_def Let_def)
  have mi: "label_unit (r_text (getScalebarSizeAndText p minSize ''mi'' None None)) = '' mi''" for p
    by (simp add: getScalebarSizeAndText_def Let_def)
  show ?thesis
    using th inch up ft mi by simp
qed

theorem IMPERIAL_LENGTH_ladder_witness:
  "(0::real) < 1 \<and> (0::real) < 400 \<and> (1 * 0.0254) * 12 \<le> 2 * (400::real) \<and>
   \<not> 2 * (400::real) < (1 * 0.0254 * 12) * 2000 \<and>
   label_unit (r_text (IMPERIAL_LENGTH 1 400)) = '' mi'' \<and>
   (0::real) < 10 \<and> (0::real) < 150 \<and> (10 * 0.0254) * 12 \<le> 2 * (150::real) \<and>
   2 * (150::real) < (10 * 0.0254 * 12) * 2000 \<and>
   label_unit (r_text (IMPERIAL_LENGTH 10 150)) = '' ft''"
  using IMPERIAL_LENGTH_ladder [of 1 400] IMPERIAL_LENGTH_ladder [of 10 150]
  by (simp add: getScalebarSizeAndText_def Let_def)

theorem IMPERIAL_LENGTH_mile_below_5280_feet:
  "(0::real) < 1 \<and> (0::real) < 400 \<and> (1 * 0.0254) * 12 \<le> 2 * (400::real) \<and>
   2 * (400::real) < (1 * 0.0254 * 12) * 5280 \<and>
   label_unit (r_text (IMPERIAL_LENGTH 1 400)) = '' mi'' \<and>
   label_unit (r_text (IMPERIAL_LENGTH 1 400)) \<noteq> '' ft''"
  unfolding IMPERIAL_LENGTH_def Let_def getScalebarSizeAndText_def by simp

section \<open>Placement\<close>

text \<open>
  Claim C7. For the anchor \<open>BOTTOM_RIGHT\<close> with \<open>stayInsideImage\<close> false, the position is
  the container's corner minus the overlay's extent minus the offsets:
  \<open>x = containerWidth - overlayWidth - xOffset\<close> and
  \<open>y = containerHeight - overlayHeight - yOffset\<close>. With offsets 5 and 5, a container of
  400 by 300 and an overlay of 100 by 20 this is the point (295, 275).
\<close>

theorem getScalebarLocation_bottom_right:
  assumes "location s = BOTTOM_RIGHT" and "\<not> stayInsideImage s"
  shows "getScalebarLocation s =
           Some \<lparr> pt_x = containerOffsetWidth (viewer s) - offsetWidth s (divElt s) - xOffset s,
                  pt_y = containerOffsetHeight (viewer s) - offsetHeight s (divElt s) - yOffset s \<rparr>"
  using assms unfolding getScalebarLocation_def Let_def by simp

theorem getScalebarLocation_bottom_right_witness:
  "location example_scalebar = BOTTOM_RIGHT \<and> \<not> stayInsideImage example_scalebar \<and>
   xOffset example_scalebar = 5 \<and> yOffset example_scalebar = 5 \<and>
   containerOffsetWidth (viewer example_scalebar) = 400 \<and>
   containerOffsetHeight (viewer example_scalebar) = 300 \<and>
   offsetWidth example_scalebar (divElt example_scalebar) = 100 \<and>
   offsetHeight example_scalebar (divElt example_scalebar) = 20 \<and>
   getScalebarLocation example_scalebar = Some \<lparr> pt_x = 295, pt_y = 275 \<rparr>"
  using getScalebarLocation_bottom_right [of example_scalebar]
  by (simp add: example_scalebar_def example_viewer_def)

lemma location_x_wrapped:
  assumes "location s \<noteq> LocNONE" and "stayInsideImage s" and "js_true (wrapHorizontal (viewer s))"
  shows "map_option pt_x (getScalebarLocation s) = Some (edge_x s)"
  using assms unfolding getScalebarLocation_def Let_def edge_x_def left_anchor_def
  by (cases "location s") simp_all

lemma location_y_wrapped:
  assumes "location s \<noteq> LocNONE" and "stayInsideImage s" and "js_true (wrapVertical (viewer s))"
  shows "map_option pt_y (getScalebarLocation s) = Some (edge_y s)"
  using assms unfolding getScalebarLocation_def Let_def edge_y_def top_anchor_def
  by (cases "location s") simp_all

lemma location_x_clamped:
  assumes "location s \<noteq> LocNONE" and "stayInsideImage s" and "\<not> js_true (wrapHorizontal (viewer s))"
  shows "map_option pt_x (getScalebarLocation s) = Some (clamped_x s)"
  using assms
  unfolding getScalebarLocation_def Let_def clamped_x_def content_corner_def left_anchor_def
    top_anchor_def
  by (cases "location s") (simp_all add: max.commute)

lemma location_y_clamped:
  assumes "location s \<noteq> LocNONE" and "stayInsideImage s" and "\<not> js_true (wrapVertical (viewer s))"
  shows "map_option pt_y (getScalebarLocation s) = Some (clamped_y s)"
  using assms
  unfolding getScalebarLocation_def Let_def clamped_y_def content_corner_def left_anchor_def
    top_anchor_def
  by (cases "location s") (simp_all add: max.commute)

lemma location_transformed_x:
  assumes "js_true (wrapHorizontal (viewer s))"
  shows "getScalebarLocation (transformed_x s g) = getScalebarLocation s"
  using assms unfolding getScalebarLocation_def Let_def transformed_x_def
  by simp

lemma location_transformed_y:
  assumes "js_true (wrapVertical (viewer s))"
  shows "getScalebarLocation (transformed_y s g) = getScalebarLocation s"
  using assms unfolding getScalebarLocation_def Let_def transformed_y_def
  by simp

text \<open>
  Claim C8. For every anchor corner, when \<open>stayInsideImage\<close> is true and the horizontal
  wrap flag is set, horizontal clamping is skipped: a second run that differs only in the
  x-coordinates the viewport transform produces returns the same position, whose x is the
  container-edge x plus or minus the offset, while the y is still clamped when the
  vertical wrap flag is unset. The same holds with the two axes exchanged.
\<close>

theorem wrap_skips_clamping:
  assumes "location s \<noteq> LocNONE" and "stayInsideImage s"
  shows "(js_true (wrapHorizontal (viewer s)) \<longrightarrow>
            (\<forall>g. getScalebarLocation (transformed_x s g) = getScalebarLocation s) \<and>
            map_option pt_x (getScalebarLocation s) = Some (edge_x s) \<and>
            (\<not> js_true (wrapVertical (viewer s)) \<longrightarrow>
               map_option pt_y (getScalebarLocation s) = Some (clamped_y s))) \<and>
         (js_true (wrapVertical (viewer s)) \<longrightarrow>
            (\<forall>g. getScalebarLocation (transformed_y s g) = getScalebarLocation s) \<and>
            map_option pt_y (getScalebarLocation s) = Some (edge_y s) \<and>
            (\<not> js_true (wrapHorizontal (viewer s)) \<longrightarrow>
               map_option pt_x (getScalebarLocation s) = Some (clamped_x s)))"
  using location_x_wrapped [OF assms] location_y_wrapped [OF assms]
    location_x_clamped [OF assms] location_y_clamped [OF assms]
    location_transformed_x [of s] location_transformed_y [of s]
  by blast

theorem wrap_skips_clamping_witness:
  "location wrapped_scalebar \<noteq> LocNONE \<and> stayInsideImage wrapped_scalebar \<and>
   js_true (wrapHorizontal (viewer wrapped_scalebar)) \<and>
   \<not> js_true (wrapVertical (viewer wrapped_scalebar)) \<and>
   getScalebarLocation (transformed_x wrapped_scalebar (\<lambda>p. 0)) =
     getScalebarLocation wrapped_scalebar \<and>
   getScalebarLocation wrapped_scalebar = Some \<lparr> pt_x = 295, pt_y = 205 \<rparr>"
proof -
  have h: "location wrapped_scalebar \<noteq> LocNONE" "stayInsideImage wrapped_scalebar"
    by (simp_all add: wrapped_scalebar_def example_scalebar_def)
  have w: "js_true (wrapHorizontal (viewer wrapped_scalebar))"
    by (simp add: wrapped_scalebar_def example_scalebar_def example_viewer_def js_true_def)
  from wrap_skips_clamping [OF h] w
  have "getScalebarLocation (transformed_x wrapped_scalebar (\<lambda>p. 0)) =
          getScalebarLocation wrapped_scalebar"
    by blast
  moreover have "getScalebarLocation wrapped_scalebar = Some \<lparr> pt_x = 295, pt_y = 205 \<rparr>"
    by (simp add: getScalebarLocation_def wrapped_scalebar_def example_scalebar_def
        example_viewer_def js_true_def Let_def)
  moreover have "\<not> js_true (wrapVertical (viewer wrapped_scalebar))"
    by (simp add: wrapped_scalebar_def example_scalebar_def example_viewer_def js_true_def)
  ultimately show ?thesis
    using h w by simp
qed

section \<open>Refreshing and reconfiguring\<close>

lemma updateOptions_None: "updateOptions s None = s"
  by (simp add: updateOptions_def)

lemma refresh_updated: "refresh s0 opts = refresh (updateOptions s0 opts) None"
  by (cases opts) (simp_all add: refresh_def updateOptions_None)

lemma guard_disabled:
  "(\<not> isOpen (viewer s) \<or> \<not> truthy_function (drawScalebar s)
      \<or> \<not> truthy_number (pixelsPerMeter s) \<or> \<not> truthy_location (Some (location s)))
   = disabled s"
  by (auto simp: disabled_def truthy_function_def truthy_number_def truthy_location_def
      split: option.splits)

lemma callDrawScalebar_display:
  "style_display (divElt (callDrawScalebar s sz txt)) = style_display (divElt s)"
  by (simp add: callDrawScalebar_def drawMicroscopyScalebar_def drawMapScalebar_def
      split: drawRef.splits)

lemma callDrawScalebar_draw:
  "drawScalebar (callDrawScalebar s sz txt) = drawScalebar s"
  by (simp add: callDrawScalebar_def drawMicroscopyScalebar_def drawMapScalebar_def
      split: drawRef.splits)

lemma refresh_when_disabled:
  assumes "disabled s"
  shows "refresh s None = Inr (s\<lparr> divElt := (divElt s)\<lparr> style_display := [Str ''none''] \<rparr> \<rparr>)"
  using assms unfolding refresh_def Let_def guard_disabled by simp

lemma refresh_when_enabled:
  assumes "\<not> disabled s"
  shows "\<not> hidden (refresh s None)"
  using assms unfolding refresh_def Let_def guard_disabled hidden_def
  by (simp add: callDrawScalebar_display split: option.splits)

lemma updateOptions_minWidth:
  "updateOptions (s\<lparr> minWidth := w \<rparr>) opts = (updateOptions s opts)\<lparr> minWidth := w \<rparr>"
  by (simp add: updateOptions_def setMinWidth_def Let_def split: option.splits)

lemma disabled_minWidth: "disabled (s\<lparr> minWidth := w \<rparr>) = disabled s"
  by (simp add: disabled_def)

text \<open>
  Claim C5, as amended. The claim says that a non-positive minimum bar width keeps
  \<open>refresh\<close> from computing. It does not: \<open>refresh\<close> never looks at \<open>minWidth\<close> before it
  calls the renderer, and a scalebar whose \<open>minWidth\<close> is 0 is drawn. What keeps \<open>refresh\<close>
  from computing is a viewer that is not open, a calibration constant that is missing or
  zero, or the location \<open>NONE\<close>: then, and only then, \<open>refresh\<close> hides the element and
  returns, with nothing but \<open>display\<close> changed after the options were applied and without
  raising; whether it hides does not depend on \<open>minWidth\<close>.
\<close>

theorem refresh_disabled:
  "(disabled (updateOptions s opts) \<longrightarrow>
      refresh s opts =
        Inr ((updateOptions s opts)
               \<lparr> divElt := (divElt (updateOptions s opts))\<lparr> style_display := [Str ''none''] \<rparr> \<rparr>)) \<and>
   (hidden (refresh s opts) \<longleftrightarrow> disabled (updateOptions s opts)) \<and>
   (hidden (refresh (s\<lparr> minWidth := w \<rparr>) opts) \<longleftrightarrow> hidden (refresh s opts))"
proof -
  have a: "refresh s opts =
        Inr ((updateOptions s opts)
               \<lparr> divElt := (divElt (updateOptions s opts))\<lparr> style_display := [Str ''none''] \<rparr> \<rparr>)"
    if "disabled (updateOptions s opts)"
    using refresh_when_disabled [OF that] by (simp add: refresh_updated [of s opts])
  have b: "hidden (refresh t opts) \<longleftrightarrow> disabled (updateOptions t opts)" for t
  proof (cases "disabled (updateOptions t opts)")
    case True
    then show ?thesis
      using refresh_when_disabled [OF True]
      by (simp add: refresh_updated [of t opts] hidden_def)
  next
    case False
    then show ?thesis
      using refresh_when_enabled [OF False] by (simp add: refresh_updated [of t opts])
  qed
  have c: "hidden (refresh (s\<lparr> minWidth := w \<rparr>) opts) \<longleftrightarrow> hidden (refresh s opts)"
    unfolding b updateOptions_minWidth disabled_minWidth ..
  show ?thesis
    using a b c by blast
qed

theorem refresh_disabled_witness:
  "disabled (example_scalebar\<lparr> pixelsPerMeter := None, minWidth := 150 \<rparr>) \<and>
   hidden (refresh (example_scalebar\<lparr> pixelsPerMeter := None, minWidth := 150 \<rparr>) None) \<and>
   \<not> disabled zero_width_scalebar \<and> \<not> hidden (refresh zero_width_scalebar None)"
proof -
  have d: "disabled (example_scalebar\<lparr> pixelsPerMeter := None, minWidth := 150 \<rparr>)"
    by (simp add: disabled_def)
  have e: "\<not> disabled zero_width_scalebar"
    by (simp add: disabled_def zero_width_scalebar_def example_scalebar_def example_viewer_def)
  have "hidden (refresh (example_scalebar\<lparr> pixelsPerMeter := None, minWidth := 150 \<rparr>) None)"
    using d
      refresh_disabled [of "example_scalebar\<lparr> pixelsPerMeter := None, minWidth := 150 \<rparr>" None 0]
    by (simp add: updateOptions_None hidden_def)
  moreover have "\<not> hidden (refresh zero_width_scalebar None)"
    using e refresh_disabled [of zero_width_scalebar None 0]
    by (simp add: updateOptions_None)
  ultimately show ?thesis
    using d e by simp
qed

theorem refresh_runs_at_zero_minWidth:
  "minWidth zero_width_scalebar \<le> 0 \<and>
   (case refresh zero_width_scalebar None of
      Inl e \<Rightarrow> False
    | Inr s \<Rightarrow>
        style_display (divElt s) = [] \<and>
        style_width (divElt s) = [Num 0, Str ''px''] \<and>
        innerHTML (divElt s) = [Num 100000, Str '' px per m''] \<and>
        style_left (divElt s) = [Num 5, Str ''px''] \<and>
        style_top (divElt s) = [Num 275, Str ''px''])"
  by (simp add: refresh_def zero_width_scalebar_def example_scalebar_def example_viewer_def
      truthy_function_def truthy_number_def truthy_location_def Let_def
      tiledImageViewportToImageZoom_def echo_renderer_def callDrawScalebar_def
      drawMicroscopyScalebar_def getScalebarLocation_def)

lemma updateOptions_draw: "drawScalebar (updateOptions s opts) = drawScalebar s"
  by (simp add: updateOptions_def setMinWidth_def Let_def split: option.splits)

lemma foldl_updateOptions_draw: "drawScalebar (foldl updateOptions s optss) = drawScalebar s"
  by (induction optss arbitrary: s) (simp_all add: updateOptions_draw)

lemma refresh_draw:
  assumes "refresh s opts = Inr s'"
  shows "drawScalebar s' = drawScalebar s"
proof -
  have "drawScalebar t' = drawScalebar t" if "refresh t None = Inr t'" for t t'
    using that unfolding refresh_def Let_def
    by (auto simp: callDrawScalebar_draw split: if_splits option.splits)
  from this [of "updateOptions s opts" s'] assms show ?thesis
    by (simp add: refresh_updated [of s opts] updateOptions_draw)
qed

lemma constructor_draw:
  assumes "constructor lw lh (Some opt) = Inr s"
  shows "drawScalebar s = setDrawScalebarFunction (or_else truthy_type (o_type opt) MICROSCOPY)"
  using assms unfolding constructor_def Let_def
  by (auto split: option.splits prod.splits)

text \<open>
  Claim C10. \<open>updateOptions\<close> leaves the field \<open>drawScalebar\<close> unchanged for every
  scalebar and every options argument: also when \<open>options.type\<close> is given, the function
  that \<open>setDrawScalebarFunction\<close> returns is not assigned. So the draw function selected
  by the constructor stays in effect through every later \<open>updateOptions\<close> and \<open>refresh\<close>.
\<close>

theorem updateOptions_keeps_drawScalebar:
  "drawScalebar (updateOptions s opts) = drawScalebar s \<and>
   drawScalebar (foldl updateOptions s optss) = drawScalebar s \<and>
   (\<forall>s'. refresh s opts = Inr s' \<longrightarrow> drawScalebar s' = drawScalebar s) \<and>
   (\<forall>s0. constructor lw lh (Some opt) = Inr s0 \<longrightarrow>
      drawScalebar (foldl updateOptions s0 optss) =
        setDrawScalebarFunction (or_else truthy_type (o_type opt) MICROSCOPY))"
  using updateOptions_draw foldl_updateOptions_draw refresh_draw constructor_draw
  by metis

theorem updateOptions_keeps_drawScalebar_witness:
  "drawScalebar example_scalebar = DrawMicroscopy \<and>
   setDrawScalebarFunction MAP = DrawMap \<and>
   drawScalebar (updateOptions example_scalebar (Some (no_options\<lparr> o_type := Some MAP \<rparr>))) =
     DrawMicroscopy"
  using updateOptions_keeps_drawScalebar
    [of example_scalebar "Some (no_options\<lparr> o_type := Some MAP \<rparr>)" "[]" "\<lambda>d. 100" "\<lambda>d. 20"
      no_options]
  by (simp add: example_scalebar_def setDrawScalebarFunction_def)

end
